theory Spec2Isabelle
  imports Main
begin

section \<open>Python values and errors\<close>

text \<open>
  The result dictionaries returned by the tests are duck-typed Python values. The
  fragment below covers what \<^verbatim>\<open>main\<close> can observe of them: \<^verbatim>\<open>None\<close>, booleans,
  integers, strings, lists and dictionaries with string keys (kept as association lists
  in insertion order). Floats are left out.
\<close>

datatype pyval =
    VNone
  | VBool bool
  | VInt int
  | VStr string
  | VList "pyval list"
  | VDict "(string \<times> pyval) list"

datatype py_error =
    AssertionError string
  | KeyError string
  | TypeError
  | AttributeError
  | OSError string

text \<open>\<^verbatim>\<open>v[key]\<close> with a string key: only a dictionary accepts it, and a missing key raises.\<close>

fun subscript :: "pyval \<Rightarrow> string \<Rightarrow> py_error + pyval" where
  "subscript (VDict d) k = (case map_of d k of None \<Rightarrow> Inl (KeyError k) | Some v \<Rightarrow> Inr v)"
| "subscript _ k = Inl TypeError"

text \<open>\<^verbatim>\<open>d.get(key, default)\<close> on the items of a dictionary.\<close>

definition dict_get :: "(string \<times> pyval) list \<Rightarrow> string \<Rightarrow> pyval \<Rightarrow> pyval" where
  "dict_get d k dflt = (case map_of d k of None \<Rightarrow> dflt | Some v \<Rightarrow> v)"

text \<open>\<^verbatim>\<open>v == n\<close> for an integer literal \<open>n\<close>; \<^verbatim>\<open>True == 1\<close> and \<^verbatim>\<open>False == 0\<close> in Python.\<close>

fun py_eq_int :: "pyval \<Rightarrow> int \<Rightarrow> bool" where
  "py_eq_int (VInt m) n = (m = n)"
| "py_eq_int (VBool b) n = ((if b then 1 else 0) = n)"
| "py_eq_int _ n = False"

text \<open>\<^verbatim>\<open>for x in v\<close>: a list yields its elements, a dictionary its keys, a string its
  characters; the other values are not iterable.\<close>

fun py_iter :: "pyval \<Rightarrow> py_error + pyval list" where
  "py_iter (VList xs) = Inr xs"
| "py_iter (VDict d) = Inr (map (\<lambda>kv. VStr (fst kv)) d)"
| "py_iter (VStr s) = Inr (map (\<lambda>c. VStr [c]) s)"
| "py_iter _ = Inl TypeError"

section \<open>Options, configurations and the store of lists\<close>

text \<open>
  Lists are the only mutable objects the configurations can share, so they live in a
  store: a cell per list object, addressed by its index; allocation appends a cell.
  A field that may hold a list holds \<^verbatim>\<open>None\<close>, a string (immutable) or a reference.
\<close>

type_synonym heap = "string list list"

datatype infile = FNone | FStr string | FRef nat

datatype infile_view = NoFiles | OneFile string | Files "string list"

definition deref :: "heap \<Rightarrow> infile \<Rightarrow> infile_view" where
  "deref h f = (case f of FNone \<Rightarrow> NoFiles | FStr s \<Rightarrow> OneFile s | FRef a \<Rightarrow> Files (h ! a))"

text \<open>A reference is valid when its cell has been allocated.\<close>

definition valid_ref :: "heap \<Rightarrow> infile \<Rightarrow> bool" where
  "valid_ref h f = (case f of FRef a \<Rightarrow> a < length h | _ \<Rightarrow> True)"

text \<open>In-place mutation of the list object at address \<open>a\<close> (append, item assignment,
  clear, ...): its cell gets the new contents.\<close>

definition mutate_list :: "heap \<Rightarrow> nat \<Rightarrow> string list \<Rightarrow> heap" where
  "mutate_list h a xs = h[a := xs]"

text \<open>The \<^verbatim>\<open>argparse\<close> namespace produced by \<^verbatim>\<open>get_options\<close>.\<close>

record options =
  debug :: int
  dry_run :: bool
  android_serial :: "string option"
  encoder :: "string option"
  test :: "string option"
  test_list :: bool
  infile_list :: infile
  outfile :: "string option"

text \<open>An \<^verbatim>\<open>AvaConfig\<close> object; \<open>'f\<close> is \<^typ>\<open>infile\<close> for the object in the store and
  \<^typ>\<open>infile_view\<close> for its contents as a test reads them.\<close>

record 'f ava_config =
  cfg_debug :: int
  cfg_dry_run :: bool
  cfg_android_serial :: "string option"
  cfg_encoder :: "string option"
  cfg_test :: "string option"
  cfg_infile_list :: 'f
  cfg_outfile :: "string option"

definition config_view :: "heap \<Rightarrow> infile ava_config \<Rightarrow> infile_view ava_config" where
  "config_view h c =
     \<lparr> cfg_debug = cfg_debug c, cfg_dry_run = cfg_dry_run c,
       cfg_android_serial = cfg_android_serial c, cfg_encoder = cfg_encoder c,
       cfg_test = cfg_test c, cfg_infile_list = deref h (cfg_infile_list c),
       cfg_outfile = cfg_outfile c \<rparr>"

text \<open>
  What \<^verbatim>\<open>main\<close> takes from outside this file: the two functions of \<^verbatim>\<open>ava-common\<close>, the
  registry \<^verbatim>\<open>ava_tests.AVA_TESTS\<close> (a dictionary from names to callables, in insertion
  order), the directory of the script, and whether \<^verbatim>\<open>open(path, "w")\<close> succeeds.
  A test is taken to be a function of the contents of the configuration it is called
  with.
\<close>

record env =
  get_all_serials :: "string option \<Rightarrow> string list"
  get_android_serial :: "string option \<Rightarrow> string option"
  AVA_TESTS :: "(string \<times> (infile_view ava_config \<Rightarrow> pyval)) list"
  SCRIPT_DIR :: string
  can_open :: "string \<Rightarrow> bool"

definition TEST_INPUT_MP4 :: "env \<Rightarrow> string" where
  "TEST_INPUT_MP4 e = SCRIPT_DIR e @ ''/../vid/johnny.1280x720.60fps.264.mp4''"

text \<open>\<^verbatim>\<open>copy.deepcopy(options)\<close>: immutable fields are shared, a list is copied into a
  fresh cell (its strings are immutable and shared).\<close>

definition deepcopy :: "heap \<Rightarrow> options \<Rightarrow> heap \<times> options" where
  "deepcopy h opts =
     (case infile_list opts of
        FRef a \<Rightarrow> (h @ [h ! a], opts\<lparr>infile_list := FRef (length h)\<rparr>)
      | _ \<Rightarrow> (h, opts))"

definition replace_serial :: "heap \<Rightarrow> options \<Rightarrow> string \<Rightarrow> heap \<times> options" where
  "replace_serial h opts serial =
     (case deepcopy h opts of (h', options') \<Rightarrow> (h', options'\<lparr>android_serial := Some serial\<rparr>))"

text \<open>\<^verbatim>\<open>AvaConfig.__init__\<close>: the fields are taken over from the options; a missing input
  list becomes a new one-element list.\<close>

definition AvaConfig :: "env \<Rightarrow> heap \<Rightarrow> options \<Rightarrow> heap \<times> infile ava_config" where
  "AvaConfig e h opts =
     (let self = \<lparr> cfg_debug = debug opts, cfg_dry_run = dry_run opts,
                   cfg_android_serial = get_android_serial e (android_serial opts),
                   cfg_encoder = encoder opts, cfg_test = test opts,
                   cfg_infile_list = infile_list opts, cfg_outfile = outfile opts \<rparr>
      in if infile_list opts = FNone
         then (h @ [[TEST_INPUT_MP4 e]], self\<lparr>cfg_infile_list := FRef (length h)\<rparr>)
         else (h, self))"

text \<open>The comprehension
  \<^verbatim>\<open>[AvaConfig(replace_serial(options, serial)) for serial in devices]\<close>.\<close>

fun build_configs :: "env \<Rightarrow> heap \<Rightarrow> options \<Rightarrow> string list \<Rightarrow> heap \<times> infile ava_config list" where
  "build_configs e h opts [] = (h, [])"
| "build_configs e h opts (serial # rest) =
     (case replace_serial h opts serial of (h1, options') \<Rightarrow>
      case AvaConfig e h1 options' of (h2, c) \<Rightarrow>
      case build_configs e h2 opts rest of (h3, cs) \<Rightarrow> (h3, c # cs))"

text \<open>The contents of the configuration built for one serial, read directly off the
  base options.\<close>

definition config_for :: "env \<Rightarrow> heap \<Rightarrow> options \<Rightarrow> string \<Rightarrow> infile_view ava_config" where
  "config_for e h opts serial =
     \<lparr> cfg_debug = debug opts, cfg_dry_run = dry_run opts,
       cfg_android_serial = get_android_serial e (Some serial),
       cfg_encoder = encoder opts, cfg_test = test opts,
       cfg_infile_list =
         (case infile_list opts of
            FNone \<Rightarrow> Files [TEST_INPUT_MP4 e]
          | FStr s \<Rightarrow> OneFile s
          | FRef a \<Rightarrow> Files (h ! a)),
       cfg_outfile = outfile opts \<rparr>"

section \<open>What a run does: prints, external calls, file writes\<close>

text \<open>
  Everything \<^verbatim>\<open>main\<close> does to the outside is recorded, in order, in a trace. A printed
  line is kept by what it shows; \<^verbatim>\<open>OpenW p\<close> and \<^verbatim>\<open>OpenFailed p\<close> stand for a call
  \<^verbatim>\<open>open(p, "w")\<close> that succeeds or raises, \<^verbatim>\<open>Write p v\<close> for writing the text
  \<^verbatim>\<open>json.dumps(v, indent=4)\<close> to the file opened from path \<open>p\<close>, and \<^verbatim>\<open>BuildConfig s\<close>
  for the construction \<^verbatim>\<open>AvaConfig(replace_serial(options, s))\<close>, which calls
  \<^verbatim>\<open>ava_common.get_android_serial\<close>. What a file holds after the run is not modelled.
\<close>

datatype printed =
    ListHeader
  | ListEntry string
  | DebugOptions options
  | NoDevices
  | RunTest string
  | Backtrace pyval
  | Value pyval

datatype event =
    Print printed
  | GetAllSerials "string option"
  | BuildConfig string
  | Invoke string "infile_view ava_config"
  | OpenW string
  | OpenFailed string
  | Write string pyval

text \<open>How the process ends: \<^verbatim>\<open>main\<close> returns, \<^verbatim>\<open>sys.exit(n)\<close> is called, or an exception
  leaves \<^verbatim>\<open>main\<close> uncaught (the interpreter then exits with status 1). The status of
  \<^verbatim>\<open>sys.exit(n)\<close> is kept as the \<open>n\<close> given; the operating system reports it modulo 256.\<close>

datatype outcome = Returned | SystemExit int | Uncaught py_error

fun exit_status :: "outcome \<Rightarrow> int" where
  "exit_status Returned = 0"
| "exit_status (SystemExit n) = n"
| "exit_status (Uncaught err) = 1"

text \<open>\<^verbatim>\<open>d.get(key, default)\<close> as a method call on any value.\<close>

fun py_get :: "pyval \<Rightarrow> string \<Rightarrow> pyval \<Rightarrow> py_error + pyval" where
  "py_get (VDict d) k dflt = Inr (dict_get d k dflt)"
| "py_get _ k dflt = Inl AttributeError"

text \<open>The loop over the nested results of a fatal outcome: each one is indexed at
  \<^verbatim>\<open>"retcode"\<close> and printed when that is not equal to 0. What was printed before an
  exception stays printed.\<close>

fun print_failed :: "pyval list \<Rightarrow> py_error option \<times> printed list" where
  "print_failed [] = (None, [])"
| "print_failed (result # rest) =
     (case subscript result ''retcode'' of
        Inl err \<Rightarrow> (Some err, [])
      | Inr rc \<Rightarrow>
          (case print_failed rest of
             (err, outs) \<Rightarrow> (err, (if \<not> py_eq_int rc 0 then [Value result] else []) @ outs)))"

text \<open>The body of \<^verbatim>\<open>if results_dict["retcode"] == -1:\<close> up to \<^verbatim>\<open>sys.exit(-1)\<close>.\<close>

definition report_fatal :: "pyval \<Rightarrow> py_error option \<times> printed list" where
  "report_fatal results_dict =
     (case py_get results_dict ''backtrace'' (VStr ''No backtrace'') of
        Inl err \<Rightarrow> (Some err, [])
      | Inr backtrace \<Rightarrow>
          (case py_get results_dict ''results'' VNone of
             Inl err \<Rightarrow> (Some err, [Backtrace backtrace])
           | Inr r \<Rightarrow>
               if r \<noteq> VNone then
                 (case subscript results_dict ''results'' of
                    Inl err \<Rightarrow> (Some err, [Backtrace backtrace])
                  | Inr all_results \<Rightarrow>
                      (case py_iter all_results of
                         Inl err \<Rightarrow> (Some err, [Backtrace backtrace])
                       | Inr rs \<Rightarrow>
                           (case print_failed rs of
                              (err, outs) \<Rightarrow> (err, Backtrace backtrace # outs))))
               else (None, [Backtrace backtrace, Value results_dict])))"

text \<open>The loop \<^verbatim>\<open>for ava_config in ava_configs\<close>, with the trace so far as accumulator.
  \<open>name\<close> is \<^verbatim>\<open>options.test\<close>, \<open>f\<close> is \<^verbatim>\<open>AVA_TESTS[options.test]\<close> and \<open>out\<close> is
  \<^verbatim>\<open>options.outfile\<close>.\<close>

fun run_tests ::
  "env \<Rightarrow> heap \<Rightarrow> string \<Rightarrow> (infile_view ava_config \<Rightarrow> pyval) \<Rightarrow> string \<Rightarrow>
   infile ava_config list \<Rightarrow> event list \<Rightarrow> outcome \<times> event list" where
  "run_tests e h name f out [] tr = (Returned, tr)"
| "run_tests e h name f out (ava_config # rest) tr =
     (let tr1 = tr @ [Print (RunTest name), Invoke name (config_view h ava_config)];
          results_dict = f (config_view h ava_config)
      in case subscript results_dict ''retcode'' of
           Inl err \<Rightarrow> (Uncaught err, tr1)
         | Inr rc \<Rightarrow>
             if py_eq_int rc (- 1) then
               (case report_fatal results_dict of
                  (Some err, outs) \<Rightarrow> (Uncaught err, tr1 @ map Print outs)
                | (None, outs) \<Rightarrow> (SystemExit (- 1), tr1 @ map Print outs))
             else if can_open e out then
               run_tests e h name f out rest (tr1 @ [OpenW out, Write out results_dict])
             else (Uncaught (OSError out), tr1 @ [OpenFailed out]))"

text \<open>Lines 185--186: no output file, or \<^verbatim>\<open>-\<close>, means standard output.\<close>

definition outfile_path :: "options \<Rightarrow> string" where
  "outfile_path opts =
     (case outfile opts of
        None \<Rightarrow> ''/dev/fd/1''
      | Some p \<Rightarrow> if p = ''-'' then ''/dev/fd/1'' else p)"

definition run_options :: "options \<Rightarrow> options" where
  "run_options opts = opts\<lparr>outfile := Some (outfile_path opts)\<rparr>"

text \<open>\<^verbatim>\<open>main\<close>, from the parsed options on. \<open>h\<close> is the store at the start. The
  \<^verbatim>\<open>assert\<close> is modelled as executed (the interpreter's default).\<close>

definition main :: "env \<Rightarrow> heap \<Rightarrow> options \<Rightarrow> outcome \<times> event list" where
  "main e h options0 =
     (if test_list options0 then
        (Returned, Print ListHeader # map (\<lambda>kv. Print (ListEntry (fst kv))) (AVA_TESTS e))
      else
        let opts = run_options options0;
            tr0 = (if debug opts > 0 then [Print (DebugOptions opts)] else []);
            devices = get_all_serials e (android_serial opts);
            tr1 = tr0 @ [GetAllSerials (android_serial opts)]
                    @ (if length devices = 0 then [Print NoDevices] else []);
            tr2 = tr1 @ map BuildConfig devices
        in case build_configs e h opts devices of
             (h', ava_configs) \<Rightarrow>
               (case test opts of
                  None \<Rightarrow> (Returned, tr2)
                | Some name \<Rightarrow>
                    (case map_of (AVA_TESTS e) name of
                       None \<Rightarrow> (Uncaught (AssertionError (''error: unknown test '' @ name)), tr2)
                     | Some f \<Rightarrow> run_tests e h' name f (outfile_path options0) ava_configs tr2)))"

subsection \<open>Reading a trace\<close>

fun invoked_of :: "event \<Rightarrow> infile_view ava_config list" where
  "invoked_of (Invoke name c) = [c]"
| "invoked_of _ = []"

fun built_of :: "event \<Rightarrow> string list" where
  "built_of (BuildConfig serial) = [serial]"
| "built_of _ = []"

fun written_of :: "event \<Rightarrow> (string \<times> pyval) list" where
  "written_of (Write p v) = [(p, v)]"
| "written_of _ = []"

text \<open>The configurations the tests were called with, the serials configurations were
  built for, and the documents written, each in order of occurrence.\<close>

definition invocations :: "event list \<Rightarrow> infile_view ava_config list" where
  "invocations tr = concat (map invoked_of tr)"

definition builds :: "event list \<Rightarrow> string list" where
  "builds tr = concat (map built_of tr)"

definition writes :: "event list \<Rightarrow> (string \<times> pyval) list" where
  "writes tr = concat (map written_of tr)"

section \<open>Predicates on outcomes and sample runs\<close>

text \<open>An outcome carries a return code when indexing it at \<^verbatim>\<open>"retcode"\<close> succeeds; it is
  fatal when that code equals \<open>-1\<close>, and not fatal when it carries another code.\<close>

definition has_retcode :: "pyval \<Rightarrow> bool" where
  "has_retcode v = (case subscript v ''retcode'' of Inl err \<Rightarrow> False | Inr rc \<Rightarrow> True)"

definition fatal :: "pyval \<Rightarrow> bool" where
  "fatal v = (case subscript v ''retcode'' of Inl err \<Rightarrow> False | Inr rc \<Rightarrow> py_eq_int rc (- 1))"

definition nonfatal :: "pyval \<Rightarrow> bool" where
  "nonfatal v = (case subscript v ''retcode'' of Inl err \<Rightarrow> False | Inr rc \<Rightarrow> \<not> py_eq_int rc (- 1))"

definition retcode_nonzero :: "pyval \<Rightarrow> bool" where
  "retcode_nonzero v = (case subscript v ''retcode'' of Inl err \<Rightarrow> False | Inr rc \<Rightarrow> \<not> py_eq_int rc 0)"

text \<open>The events of one iteration of the loop that ends with the outcome written.\<close>

definition recorded ::
  "string \<Rightarrow> (infile_view ava_config \<Rightarrow> pyval) \<Rightarrow> string \<Rightarrow> infile_view ava_config \<Rightarrow> event list" where
  "recorded name f out v = [Print (RunTest name), Invoke name v, OpenW out, Write out (f v)]"

text \<open>The events of \<^verbatim>\<open>main\<close> before the test is looked up.\<close>

definition setup_events :: "env \<Rightarrow> options \<Rightarrow> event list" where
  "setup_events e opts =
     (if debug opts > 0 then [Print (DebugOptions (run_options opts))] else [])
     @ [GetAllSerials (android_serial opts)]
     @ (if get_all_serials e (android_serial opts) = [] then [Print NoDevices] else [])
     @ map BuildConfig (get_all_serials e (android_serial opts))"

text \<open>The defaults of the option parser.\<close>

definition default_values :: options where
  "default_values =
     \<lparr> debug = 0, dry_run = False, android_serial = None, encoder = None, test = None,
       test_list = False, infile_list = FNone, outfile = None \<rparr>"

text \<open>Sample tests: \<open>ping\<close> succeeds on device A and fails softly elsewhere; \<open>boom\<close> is
  fatal on device A and \<open>boom_b\<close> on device B; \<open>nested\<close> is fatal with nested results,
  and so is \<open>half_nested\<close>, one of whose nested results has no return code; \<open>bare\<close>
  returns a dictionary without a return code.\<close>

definition ping :: "infile_view ava_config \<Rightarrow> pyval" where
  "ping cfg =
     (if cfg_android_serial cfg = Some ''A'' then VDict [(''retcode'', VInt 0)]
      else VDict [(''retcode'', VInt 1)])"

definition boom :: "infile_view ava_config \<Rightarrow> pyval" where
  "boom cfg =
     (if cfg_android_serial cfg = Some ''A''
      then VDict [(''retcode'', VInt (- 1)), (''backtrace'', VStr ''boom'')]
      else VDict [(''retcode'', VInt 0)])"

definition nested :: "infile_view ava_config \<Rightarrow> pyval" where
  "nested cfg =
     VDict [(''retcode'', VInt (- 1)),
            (''results'', VList [VDict [(''retcode'', VInt 0)],
                                 VDict [(''retcode'', VInt 2), (''name'', VStr ''enc'')]])]"

definition boom_b :: "infile_view ava_config \<Rightarrow> pyval" where
  "boom_b cfg =
     (if cfg_android_serial cfg = Some ''B''
      then VDict [(''retcode'', VInt (- 1)), (''backtrace'', VStr ''boom'')]
      else VDict [(''retcode'', VInt 3)])"

definition half_nested :: "infile_view ava_config \<Rightarrow> pyval" where
  "half_nested cfg =
     VDict [(''retcode'', VInt (- 1)),
            (''results'', VList [VDict [(''retcode'', VInt 5)], VDict [(''name'', VStr ''enc'')],
                                 VDict [(''retcode'', VInt 7)]])]"

definition bare :: "infile_view ava_config \<Rightarrow> pyval" where
  "bare cfg = VDict [(''status'', VStr ''ok'')]"

definition lab :: env where
  "lab =
     \<lparr> get_all_serials = (\<lambda>filter. [''A'', ''B'']),
       get_android_serial = (\<lambda>serial. serial),
       AVA_TESTS = [(''ping'', ping), (''boom'', boom), (''boom_b'', boom_b),
                    (''nested'', nested), (''bare'', bare)],
       SCRIPT_DIR = ''/opt/ava/python'',
       can_open = (\<lambda>p. p \<noteq> ''/nonexistent/out.json'') \<rparr>"

definition empty_lab :: env where
  "empty_lab = lab\<lparr>get_all_serials := (\<lambda>filter. [])\<rparr>"

text \<open>A configuration as \<^verbatim>\<open>main\<close> builds it for device A from an input file given on the
  command line.\<close>

definition config_a :: "infile ava_config" where
  "config_a =
     \<lparr> cfg_debug = 0, cfg_dry_run = False, cfg_android_serial = Some ''A'',
       cfg_encoder = None, cfg_test = None, cfg_infile_list = FStr ''in.mp4'',
       cfg_outfile = Some ''out.json'' \<rparr>"

definition config_b :: "infile ava_config" where
  "config_b = config_a\<lparr>cfg_android_serial := Some ''B''\<rparr>"

definition lab3 :: env where
  "lab3 = lab\<lparr>get_all_serials := (\<lambda>filter. [''A'', ''B'', ''C''])\<rparr>"

section \<open>Auxiliary facts\<close>

subsection \<open>Reading traces\<close>

lemma invocations_append [simp]: "invocations (a @ b) = invocations a @ invocations b"
  by (simp add: invocations_def)

lemma builds_append [simp]: "builds (a @ b) = builds a @ builds b"
  by (simp add: builds_def)

lemma writes_append [simp]: "writes (a @ b) = writes a @ writes b"
  by (simp add: writes_def)

lemma read_Nil [simp]:
  "invocations [] = []" "builds [] = []" "writes [] = []"
  by (simp_all add: invocations_def builds_def writes_def)

lemma read_Cons [simp]:
  "invocations (x # tr) = invoked_of x @ invocations tr"
  "builds (x # tr) = built_of x @ builds tr"
  "writes (x # tr) = written_of x @ writes tr"
  by (simp_all add: invocations_def builds_def writes_def)

lemma read_BuildConfig [simp]:
  "builds (map BuildConfig ds) = ds"
  "invocations (map BuildConfig ds) = []"
  "writes (map BuildConfig ds) = []"
  by (induction ds) simp_all

lemma read_Print [simp]:
  "builds (map Print outs) = []"
  "invocations (map Print outs) = []"
  "writes (map Print outs) = []"
  by (induction outs) simp_all

lemma setup_events_read [simp]:
  "builds (setup_events e opts) = get_all_serials e (android_serial opts)"
  "invocations (setup_events e opts) = []"
  "writes (setup_events e opts) = []"
  by (simp_all add: setup_events_def)

lemma recorded_read [simp]:
  "builds (recorded name f out v) = []"
  "invocations (recorded name f out v) = [v]"
  "writes (recorded name f out v) = [(out, f v)]"
  by (simp_all add: recorded_def)

subsection \<open>Building the configurations\<close>

lemma build_one:
  assumes "valid_ref h (infile_list opts)"
    and "replace_serial h opts s = (h1, o1)" and "AvaConfig e h1 o1 = (h2, c)"
  shows "length h \<le> length h2" and "\<forall>a<length h. h2 ! a = h ! a"
    and "valid_ref h2 (cfg_infile_list c)" and "config_view h2 c = config_for e h opts s"
  using assms
  by (cases "infile_list opts";
      auto simp: replace_serial_def deepcopy_def AvaConfig_def config_view_def config_for_def
        deref_def valid_ref_def Let_def nth_append)+

lemma view_stable:
  assumes "valid_ref h (cfg_infile_list c)" and "\<forall>a<length h. h' ! a = h ! a"
  shows "config_view h' c = config_view h c"
  using assms by (cases "cfg_infile_list c") (auto simp: config_view_def deref_def valid_ref_def)

lemma config_for_stable:
  assumes "valid_ref h (infile_list opts)" and "\<forall>a<length h. h' ! a = h ! a"
  shows "config_for e h' opts s = config_for e h opts s"
  using assms by (cases "infile_list opts") (auto simp: config_for_def valid_ref_def)

lemma valid_ref_mono:
  "valid_ref h f \<Longrightarrow> length h \<le> length h' \<Longrightarrow> valid_ref h' f"
  by (cases f) (auto simp: valid_ref_def)

lemma build_configs_views:
  assumes "valid_ref h (infile_list opts)" and "build_configs e h opts ds = (h', cs)"
  shows "map (config_view h') cs = map (config_for e h opts) ds
       \<and> length h \<le> length h' \<and> (\<forall>a<length h. h' ! a = h ! a)"
  using assms
proof (induction ds arbitrary: h h' cs)
  case Nil
  then show ?case by simp
next
  case (Cons s ds)
  obtain h1 o1 where rs: "replace_serial h opts s = (h1, o1)" by force
  obtain h2 c where ac: "AvaConfig e h1 o1 = (h2, c)" by force
  obtain h3 cs' where bc: "build_configs e h2 opts ds = (h3, cs')" by force
  from Cons.prems(2) rs ac bc have res: "h' = h3" "cs = c # cs'" by simp_all
  note one = build_one [OF Cons.prems(1) rs ac]
  have v2: "valid_ref h2 (infile_list opts)"
    using Cons.prems(1) one(1) by (rule valid_ref_mono)
  from Cons.IH [OF v2 bc]
  have ih: "map (config_view h3) cs' = map (config_for e h2 opts) ds"
    and len: "length h2 \<le> length h3" and same: "\<forall>a<length h2. h3 ! a = h2 ! a"
    by simp_all
  have "config_view h3 c = config_for e h opts s"
    using view_stable [OF one(3) same] one(4) by simp
  moreover have "map (config_for e h2 opts) ds = map (config_for e h opts) ds"
    using config_for_stable [OF Cons.prems(1) one(2)] by simp
  moreover have "length h \<le> length h3" using one(1) len by simp
  moreover have "\<forall>a<length h. h3 ! a = h ! a" using one(1,2) same by auto
  ultimately show ?case using res ih by simp
qed

lemma build_configs_dry_run:
  "build_configs e h opts ds = (h', cs) \<Longrightarrow>
     length cs = length ds \<and> (\<forall>c \<in> set cs. cfg_dry_run c = dry_run opts)"
proof (induction ds arbitrary: h h' cs)
  case Nil
  then show ?case by simp
next
  case (Cons s ds)
  obtain h1 o1 where rs: "replace_serial h opts s = (h1, o1)" by force
  obtain h2 c where ac: "AvaConfig e h1 o1 = (h2, c)" by force
  obtain h3 cs' where bc: "build_configs e h2 opts ds = (h3, cs')" by force
  from Cons.prems rs ac bc have res: "cs = c # cs'" by simp
  have "cfg_dry_run c = dry_run opts"
    using rs ac
    by (auto simp: replace_serial_def deepcopy_def AvaConfig_def Let_def
        split: infile.splits if_splits)
  with Cons.IH [OF bc] res show ?case by simp
qed

subsection \<open>The three ways through \<^verbatim>\<open>main\<close> past the listing mode\<close>

lemma main_registered:
  assumes "\<not> test_list opts" and "test opts = Some name"
    and "map_of (AVA_TESTS e) name = Some f"
    and "build_configs e h (run_options opts) (get_all_serials e (android_serial opts)) = (h', cs)"
  shows "main e h opts = run_tests e h' name f (outfile_path opts) cs (setup_events e opts)"
  using assms by (simp add: main_def Let_def setup_events_def run_options_def)

lemma main_unknown:
  assumes "\<not> test_list opts" and "test opts = Some name"
    and "map_of (AVA_TESTS e) name = None"
  shows "main e h opts =
      (Uncaught (AssertionError (''error: unknown test '' @ name)), setup_events e opts)"
  using assms
  by (simp add: main_def Let_def setup_events_def run_options_def split: prod.splits)

lemma main_no_test:
  assumes "\<not> test_list opts" and "test opts = None"
  shows "main e h opts = (Returned, setup_events e opts)"
  using assms
  by (simp add: main_def Let_def setup_events_def run_options_def split: prod.splits)

subsection \<open>The loop over the configurations\<close>

lemma recorded_all_read [simp]:
  "builds (concat (map (\<lambda>c. recorded name f out (g c)) cs)) = []"
  "invocations (concat (map (\<lambda>c. recorded name f out (g c)) cs)) = map g cs"
  "writes (concat (map (\<lambda>c. recorded name f out (g c)) cs)) = map (\<lambda>c. (out, f (g c))) cs"
  by (induction cs) simp_all

lemma run_tests_nonfatal_step:
  assumes "nonfatal (f (config_view h c))" and "can_open e out"
  shows "run_tests e h name f out (c # rest) tr =
         run_tests e h name f out rest (tr @ recorded name f out (config_view h c))"
  using assms
  by (auto simp: nonfatal_def recorded_def Let_def split: sum.splits)

lemma run_tests_nonfatal_prefix:
  assumes "\<forall>c \<in> set pre. nonfatal (f (config_view h c))" and "pre \<noteq> [] \<longrightarrow> can_open e out"
  shows "run_tests e h name f out (pre @ rest) tr =
         run_tests e h name f out rest
           (tr @ concat (map (\<lambda>c. recorded name f out (config_view h c)) pre))"
  using assms
proof (induction pre arbitrary: tr)
  case Nil
  then show ?case by simp
next
  case (Cons c pre)
  then show ?case by (simp add: run_tests_nonfatal_step del: run_tests.simps)
qed

lemma run_tests_fatal_step:
  assumes "fatal (f (config_view h c))"
  shows "run_tests e h name f out (c # rest) tr =
     ((case fst (report_fatal (f (config_view h c))) of
         None \<Rightarrow> SystemExit (- 1) | Some err \<Rightarrow> Uncaught err),
      tr @ [Print (RunTest name), Invoke name (config_view h c)]
         @ map Print (snd (report_fatal (f (config_view h c)))))"
  using assms
  by (auto simp: fatal_def Let_def split: sum.splits prod.splits option.splits)

lemma print_failed_all:
  "list_all has_retcode rs \<Longrightarrow>
     print_failed rs = (None, map Value (filter retcode_nonzero rs))"
  by (induction rs) (auto simp: has_retcode_def retcode_nonzero_def split: sum.splits)

lemma print_failed_missing:
  "list_all has_retcode ok \<Longrightarrow> map_of d' ''retcode'' = None \<Longrightarrow>
     print_failed (ok @ VDict d' # later) =
       (Some (KeyError ''retcode''), map Value (filter retcode_nonzero ok))"
  by (induction ok) (auto simp: has_retcode_def retcode_nonzero_def split: sum.splits)

lemma run_tests_trace:
  "\<exists>loop. snd (run_tests e h name f out cs tr) = tr @ loop \<and> builds loop = []
      \<and> set (invocations loop) \<subseteq> config_view h ` set cs"
proof (induction cs arbitrary: tr)
  case Nil
  then show ?case by simp
next
  case (Cons c cs)
  let ?v = "config_view h c"
  let ?tr1 = "tr @ [Print (RunTest name), Invoke name ?v]"
  show ?case
  proof (cases "nonfatal (f ?v) \<and> can_open e out")
    case True
    from Cons.IH [of "tr @ recorded name f out ?v"]
    obtain loop where "snd (run_tests e h name f out cs (tr @ recorded name f out ?v))
        = (tr @ recorded name f out ?v) @ loop" "builds loop = []"
        "set (invocations loop) \<subseteq> config_view h ` set cs" by blast
    then show ?thesis
      using True by (intro exI [of _ "recorded name f out ?v @ loop"])
        (auto simp: run_tests_nonfatal_step simp del: run_tests.simps)
  next
    case False
    then have "\<exists>outs. snd (run_tests e h name f out (c # cs) tr) = ?tr1 @ map Print outs
        \<or> snd (run_tests e h name f out (c # cs) tr) = ?tr1 @ [OpenFailed out]"
      by (auto simp: nonfatal_def Let_def split: sum.splits prod.splits option.splits
          intro: exI [of _ "[]"])
    then show ?thesis
      by (elim exE disjE)
        (rule exI [of _ "[Print (RunTest name), Invoke name ?v] @ map Print _"], simp,
         rule exI [of _ "[Print (RunTest name), Invoke name ?v, OpenFailed out]"], simp)
  qed
qed

section \<open>Independence of the per-device configurations\<close>

lemma replace_serial_twice:
  assumes "valid_ref h (infile_list opts)"
    and "replace_serial h opts s1 = (h1, o1)" and "replace_serial h1 opts s2 = (h2, o2)"
  shows "android_serial o1 = Some s1 \<and> android_serial o2 = Some s2
     \<and> o1\<lparr>android_serial := None, infile_list := FNone\<rparr>
         = opts\<lparr>android_serial := None, infile_list := FNone\<rparr>
     \<and> o2\<lparr>android_serial := None, infile_list := FNone\<rparr>
         = opts\<lparr>android_serial := None, infile_list := FNone\<rparr>
     \<and> deref h2 (infile_list o1) = deref h (infile_list opts)
     \<and> deref h2 (infile_list o2) = deref h (infile_list opts)
     \<and> (\<forall>a xs. infile_list o1 = FRef a \<longrightarrow>
            deref (mutate_list h2 a xs) (infile_list o1) = Files xs
          \<and> deref (mutate_list h2 a xs) (infile_list o2) = deref h2 (infile_list o2)
          \<and> deref (mutate_list h2 a xs) (infile_list opts) = deref h2 (infile_list opts))
     \<and> (\<forall>a xs. infile_list o2 = FRef a \<longrightarrow>
            deref (mutate_list h2 a xs) (infile_list o2) = Files xs
          \<and> deref (mutate_list h2 a xs) (infile_list o1) = deref h2 (infile_list o1)
          \<and> deref (mutate_list h2 a xs) (infile_list opts) = deref h2 (infile_list opts))"
  using assms
  by (cases "infile_list opts")
     (auto simp: replace_serial_def deepcopy_def deref_def mutate_list_def valid_ref_def
        nth_append nth_list_update)

lemma build_two_configs:
  assumes "valid_ref h (infile_list opts)"
    and "build_configs e h opts [s1, s2] = (h', cs)"
  shows "\<exists>c1 c2. cs = [c1, c2]
     \<and> config_view h' c1 = config_for e h opts s1
     \<and> config_view h' c2 = config_for e h opts s2
     \<and> (config_view h' c1)\<lparr>cfg_android_serial := None\<rparr>
         = (config_view h' c2)\<lparr>cfg_android_serial := None\<rparr>
     \<and> (\<forall>a xs. cfg_infile_list c1 = FRef a \<longrightarrow>
            cfg_infile_list (config_view (mutate_list h' a xs) c1) = Files xs
          \<and> config_view (mutate_list h' a xs) c2 = config_view h' c2
          \<and> deref (mutate_list h' a xs) (infile_list opts) = deref h' (infile_list opts))
     \<and> (\<forall>a xs. cfg_infile_list c2 = FRef a \<longrightarrow>
            cfg_infile_list (config_view (mutate_list h' a xs) c2) = Files xs
          \<and> config_view (mutate_list h' a xs) c1 = config_view h' c1
          \<and> deref (mutate_list h' a xs) (infile_list opts) = deref h' (infile_list opts))"
  using assms
  by (cases "infile_list opts")
     (auto simp: replace_serial_def deepcopy_def AvaConfig_def config_view_def config_for_def
        deref_def mutate_list_def valid_ref_def Let_def nth_append nth_list_update)

text \<open>
  C5. For every base options value whose input list, if it is a list, is allocated, and
  for every two serials. The two copies \<^verbatim>\<open>replace_serial\<close> makes of the options carry their
  own serial and agree with the base options, and so with each other, on every other
  field, the input list by its contents; mutating the list of one copy changes that copy
  and leaves the list of the other copy and the list of the base options unchanged. The
  same holds of the two configurations the comprehension of \<^verbatim>\<open>main\<close> builds from such
  copies: they have the contents \<open>config_for\<close> gives for their serials, so they agree
  on every field but the serial, and mutating the list of one of them leaves the other
  configuration and the base options unchanged. No list is shared between siblings or
  with the base options.
\<close>

theorem deep_copy_configs:
  assumes "valid_ref h (infile_list opts)"
    and "replace_serial h opts s1 = (h1, o1)" and "replace_serial h1 opts s2 = (h2, o2)"
    and "build_configs e h opts [s1, s2] = (h', cs)"
  shows "android_serial o1 = Some s1 \<and> android_serial o2 = Some s2
     \<and> o1\<lparr>android_serial := None, infile_list := FNone\<rparr>
         = opts\<lparr>android_serial := None, infile_list := FNone\<rparr>
     \<and> o2\<lparr>android_serial := None, infile_list := FNone\<rparr>
         = opts\<lparr>android_serial := None, infile_list := FNone\<rparr>
     \<and> deref h2 (infile_list o1) = deref h (infile_list opts)
     \<and> deref h2 (infile_list o2) = deref h (infile_list opts)
     \<and> (\<forall>a xs. infile_list o1 = FRef a \<longrightarrow>
            deref (mutate_list h2 a xs) (infile_list o1) = Files xs
          \<and> deref (mutate_list h2 a xs) (infile_list o2) = deref h2 (infile_list o2)
          \<and> deref (mutate_list h2 a xs) (infile_list opts) = deref h2 (infile_list opts))
     \<and> (\<forall>a xs. infile_list o2 = FRef a \<longrightarrow>
            deref (mutate_list h2 a xs) (infile_list o2) = Files xs
          \<and> deref (mutate_list h2 a xs) (infile_list o1) = deref h2 (infile_list o1)
          \<and> deref (mutate_list h2 a xs) (infile_list opts) = deref h2 (infile_list opts))
     \<and> (\<exists>c1 c2. cs = [c1, c2]
          \<and> config_view h' c1 = config_for e h opts s1
          \<and> config_view h' c2 = config_for e h opts s2
          \<and> (config_view h' c1)\<lparr>cfg_android_serial := None\<rparr>
              = (config_view h' c2)\<lparr>cfg_android_serial := None\<rparr>
          \<and> (\<forall>a xs. cfg_infile_list c1 = FRef a \<longrightarrow>
                 cfg_infile_list (config_view (mutate_list h' a xs) c1) = Files xs
               \<and> config_view (mutate_list h' a xs) c2 = config_view h' c2
               \<and> deref (mutate_list h' a xs) (infile_list opts) = deref h' (infile_list opts))
          \<and> (\<forall>a xs. cfg_infile_list c2 = FRef a \<longrightarrow>
                 cfg_infile_list (config_view (mutate_list h' a xs) c2) = Files xs
               \<and> config_view (mutate_list h' a xs) c1 = config_view h' c1
               \<and> deref (mutate_list h' a xs) (infile_list opts) = deref h' (infile_list opts)))"
  using replace_serial_twice [OF assms(1-3)] build_two_configs [OF assms(1,4)]
  by (intro conjI) (elim conjE, assumption)+

theorem deep_copy_configs_witness:
  "valid_ref [[''a.mp4'']] (infile_list (default_values\<lparr>infile_list := FRef 0\<rparr>))
   \<and> (\<exists>o1 o2.
        replace_serial [[''a.mp4'']] (default_values\<lparr>infile_list := FRef 0\<rparr>) ''A''
          = ([[''a.mp4''], [''a.mp4'']], o1)
      \<and> replace_serial [[''a.mp4''], [''a.mp4'']] (default_values\<lparr>infile_list := FRef 0\<rparr>) ''B''
          = ([[''a.mp4''], [''a.mp4''], [''a.mp4'']], o2)
      \<and> infile_list o1 = FRef 1 \<and> infile_list o2 = FRef 2
      \<and> android_serial o1 = Some ''A'' \<and> android_serial o2 = Some ''B''
      \<and> deref (mutate_list [[''a.mp4''], [''a.mp4''], [''a.mp4'']] 1 [''z.mp4''])
           (infile_list o1) = Files [''z.mp4'']
      \<and> deref (mutate_list [[''a.mp4''], [''a.mp4''], [''a.mp4'']] 1 [''z.mp4''])
           (infile_list o2) = Files [''a.mp4''])
   \<and> (\<exists>c1 c2.
        build_configs lab [[''a.mp4'']] (default_values\<lparr>infile_list := FRef 0\<rparr>) [''A'', ''B'']
          = ([[''a.mp4''], [''a.mp4''], [''a.mp4'']], [c1, c2])
      \<and> cfg_infile_list c1 = FRef 1 \<and> cfg_infile_list c2 = FRef 2
      \<and> cfg_android_serial c1 = Some ''A'' \<and> cfg_android_serial c2 = Some ''B''
      \<and> cfg_infile_list
           (config_view (mutate_list [[''a.mp4''], [''a.mp4''], [''a.mp4'']] 1 [''z.mp4'']) c1)
          = Files [''z.mp4'']
      \<and> cfg_infile_list
           (config_view (mutate_list [[''a.mp4''], [''a.mp4''], [''a.mp4'']] 1 [''z.mp4'']) c2)
          = Files [''a.mp4'']
      \<and> deref (mutate_list [[''a.mp4''], [''a.mp4''], [''a.mp4'']] 1 [''z.mp4''])
           (infile_list (default_values\<lparr>infile_list := FRef 0\<rparr>)) = Files [''a.mp4''])"
  using deep_copy_configs [of "[[''a.mp4'']]" "default_values\<lparr>infile_list := FRef 0\<rparr>"
      "''A''" "[[''a.mp4''], [''a.mp4'']]" _ "''B''" "[[''a.mp4''], [''a.mp4''], [''a.mp4'']]" _
      lab "[[''a.mp4''], [''a.mp4''], [''a.mp4'']]"]
  by (simp add: valid_ref_def default_values_def lab_def replace_serial_def deepcopy_def
      AvaConfig_def config_view_def deref_def mutate_list_def Let_def)

section \<open>An unknown test name\<close>

text \<open>
  C1, as stated: with a test name that is not in the registry, the run fails before any
  per-device work, with no iteration over the devices. It does not hold: in the lab with
  devices A and B and the unregistered name \<^verbatim>\<open>bogus\<close>, the configurations of A and B have
  been built when the assertion fails.
\<close>

theorem unknown_test_configs_built:
  "test (default_values\<lparr>test := Some ''bogus''\<rparr>) = Some ''bogus''
   \<and> map_of (AVA_TESTS lab) ''bogus'' = None
   \<and> main lab [] (default_values\<lparr>test := Some ''bogus''\<rparr>)
       = (Uncaught (AssertionError ''error: unknown test bogus''),
          [GetAllSerials None, BuildConfig ''A'', BuildConfig ''B''])
   \<and> builds (snd (main lab [] (default_values\<lparr>test := Some ''bogus''\<rparr>))) \<noteq> []"
  by (simp add: main_def default_values_def lab_def run_options_def outfile_path_def Let_def
      replace_serial_def deepcopy_def AvaConfig_def TEST_INPUT_MP4_def)

text \<open>
  C1, amended. For every run past the listing mode whose selected test name is not in the
  registry, \<^verbatim>\<open>main\<close> fails with the assertion error \<^verbatim>\<open>error: unknown test <name>\<close> and
  a nonzero exit status, after the devices were enumerated and one configuration was built
  per device, and before any test is invoked: no test function is called and no result
  is written.
\<close>

theorem unknown_test_fails_after_setup:
  assumes "\<not> test_list opts" and "test opts = Some name"
    and "map_of (AVA_TESTS e) name = None"
  shows "fst (main e h opts) = Uncaught (AssertionError (''error: unknown test '' @ name))
       \<and> exit_status (fst (main e h opts)) \<noteq> 0
       \<and> snd (main e h opts) = setup_events e opts
       \<and> builds (snd (main e h opts)) = get_all_serials e (android_serial opts)
       \<and> invocations (snd (main e h opts)) = []
       \<and> writes (snd (main e h opts)) = []"
  using main_unknown [OF assms, of h] by simp

theorem unknown_test_fails_after_setup_witness:
  "\<not> test_list (default_values\<lparr>test := Some ''bogus''\<rparr>)
   \<and> test (default_values\<lparr>test := Some ''bogus''\<rparr>) = Some ''bogus''
   \<and> map_of (AVA_TESTS lab) ''bogus'' = None
   \<and> fst (main lab [] (default_values\<lparr>test := Some ''bogus''\<rparr>))
       = Uncaught (AssertionError ''error: unknown test bogus'')
   \<and> builds (snd (main lab [] (default_values\<lparr>test := Some ''bogus''\<rparr>))) = [''A'', ''B'']
   \<and> invocations (snd (main lab [] (default_values\<lparr>test := Some ''bogus''\<rparr>))) = []"
  using unknown_test_fails_after_setup
    [of "default_values\<lparr>test := Some ''bogus''\<rparr>" "''bogus''" lab "[]"]
  by (simp add: default_values_def lab_def)

section \<open>A fatal outcome\<close>

lemma run_tests_halts:
  assumes "\<forall>c \<in> set pre. nonfatal (f (config_view h c))"
    and "pre \<noteq> [] \<longrightarrow> can_open e out"
    and "fatal (f (config_view h c))"
  shows "\<exists>r loop. run_tests e h name f out (pre @ c # post) tr = (r, tr @ loop)
      \<and> exit_status r \<noteq> 0 \<and> builds loop = []
      \<and> invocations loop = map (config_view h) (pre @ [c])
      \<and> writes loop = map (\<lambda>c. (out, f (config_view h c))) pre"
proof -
  let ?rec = "concat (map (\<lambda>c. recorded name f out (config_view h c)) pre)"
  let ?rep = "report_fatal (f (config_view h c))"
  let ?r = "case fst ?rep of None \<Rightarrow> SystemExit (- 1) | Some err \<Rightarrow> Uncaught err"
  let ?loop = "?rec @ [Print (RunTest name), Invoke name (config_view h c)] @ map Print (snd ?rep)"
  have "run_tests e h name f out (pre @ c # post) tr
      = run_tests e h name f out (c # post) (tr @ ?rec)"
    using assms(1,2) by (rule run_tests_nonfatal_prefix)
  also have "\<dots> = (?r, (tr @ ?rec) @ [Print (RunTest name), Invoke name (config_view h c)]
      @ map Print (snd ?rep))"
    using assms(3) by (rule run_tests_fatal_step)
  finally have "run_tests e h name f out (pre @ c # post) tr = (?r, tr @ ?loop)"
    by simp
  moreover have "exit_status ?r \<noteq> 0" by (simp split: option.splits)
  ultimately show ?thesis by (intro exI [of _ ?r] exI [of _ ?loop]) simp
qed

text \<open>
  C2, as stated: a return code \<open>-1\<close> for device \<open>i\<close> halts processing before the
  configuration of device \<open>i + 1\<close> is built. It does not hold: with devices A and B and a
  test that is fatal on A, the configuration of B has been built (before the test was
  called for A) when the run exits.
\<close>

theorem fatal_first_device_configs_built:
  "fatal (boom (config_for lab [] (run_options (default_values\<lparr>test := Some ''boom''\<rparr>)) ''A''))
   \<and> main lab [] (default_values\<lparr>test := Some ''boom''\<rparr>)
       = (SystemExit (- 1),
          [GetAllSerials None, BuildConfig ''A'', BuildConfig ''B'',
           Print (RunTest ''boom''),
           Invoke ''boom''
             (config_for lab [] (run_options (default_values\<lparr>test := Some ''boom''\<rparr>)) ''A''),
           Print (Backtrace (VStr ''boom'')),
           Print (Value (VDict [(''retcode'', VInt (- 1)), (''backtrace'', VStr ''boom'')]))])
   \<and> BuildConfig ''B'' \<in> set (snd (main lab [] (default_values\<lparr>test := Some ''boom''\<rparr>)))"
  by (simp add: main_def default_values_def lab_def run_options_def outfile_path_def Let_def
      replace_serial_def deepcopy_def AvaConfig_def TEST_INPUT_MP4_def config_for_def
      config_view_def deref_def boom_def fatal_def report_fatal_def dict_get_def)

text \<open>
  C2, amended. For every device list and every position in it: if the test is registered,
  the outcomes of the earlier devices are not fatal (and could be written), and the
  outcome of the device at that position is fatal, then the run ends with a nonzero exit
  status; the test has been invoked for the devices up to and including that one, in
  order, and for no later device; the outcomes of the earlier devices, and only those,
  have been written. The configurations of all devices, the later ones included, were
  built during the setup, before the first invocation; none is built in the loop.
\<close>

theorem fatal_outcome_halts_invocations:
  assumes "\<not> test_list opts" and "test opts = Some name"
    and "map_of (AVA_TESTS e) name = Some f"
    and "valid_ref h (infile_list opts)"
    and "get_all_serials e (android_serial opts) = pre @ s # post"
    and "\<forall>s' \<in> set pre. nonfatal (f (config_for e h (run_options opts) s'))"
    and "pre \<noteq> [] \<longrightarrow> can_open e (outfile_path opts)"
    and "fatal (f (config_for e h (run_options opts) s))"
  shows "exit_status (fst (main e h opts)) \<noteq> 0
       \<and> (\<exists>loop. snd (main e h opts) = setup_events e opts @ loop \<and> builds loop = [])
       \<and> builds (snd (main e h opts)) = pre @ s # post
       \<and> invocations (snd (main e h opts))
           = map (config_for e h (run_options opts)) (pre @ [s])
       \<and> writes (snd (main e h opts))
           = map (\<lambda>s'. (outfile_path opts, f (config_for e h (run_options opts) s'))) pre"
proof -
  let ?ro = "run_options opts"
  obtain h' cs where bc: "build_configs e h ?ro (pre @ s # post) = (h', cs)" by force
  have v: "valid_ref h (infile_list ?ro)" using assms(4) by (simp add: run_options_def)
  from build_configs_views [OF v bc]
  have views: "map (config_view h') cs = map (config_for e h ?ro) (pre @ s # post)" by simp
  then obtain cpre c cpost where cs: "cs = cpre @ c # cpost"
    and vpre: "map (config_view h') cpre = map (config_for e h ?ro) pre"
    and vc: "config_view h' c = config_for e h ?ro s"
    by (auto simp: map_eq_append_conv map_eq_Cons_conv)
  have "\<forall>c' \<in> set cpre. nonfatal (f (config_view h' c'))"
  proof
    fix c' assume "c' \<in> set cpre"
    then have "config_view h' c' \<in> set (map (config_for e h ?ro) pre)"
      using vpre by (metis image_eqI set_map)
    then show "nonfatal (f (config_view h' c'))" using assms(6) by auto
  qed
  moreover have "cpre \<noteq> [] \<longrightarrow> can_open e (outfile_path opts)"
    using assms(7) vpre by auto
  moreover have "fatal (f (config_view h' c))" using assms(8) vc by simp
  ultimately obtain r loop where
    run: "run_tests e h' name f (outfile_path opts) (cpre @ c # cpost) (setup_events e opts)
            = (r, setup_events e opts @ loop)"
    and r: "exit_status r \<noteq> 0" and b: "builds loop = []"
    and i: "invocations loop = map (config_view h') (cpre @ [c])"
    and w: "writes loop = map (\<lambda>c. (outfile_path opts, f (config_view h' c))) cpre"
    using run_tests_halts [of cpre f h' e "outfile_path opts" c name cpost "setup_events e opts"]
    by blast
  have m: "main e h opts = (r, setup_events e opts @ loop)"
    using main_registered [OF assms(1-3), of h h' cs] bc assms(5) cs run by simp
  have w': "writes loop = map (\<lambda>s'. (outfile_path opts, f (config_for e h ?ro s'))) pre"
  proof -
    have "map (\<lambda>c. (outfile_path opts, f (config_view h' c))) cpre
        = map (\<lambda>v. (outfile_path opts, f v)) (map (config_view h') cpre)" by simp
    also have "\<dots> = map (\<lambda>v. (outfile_path opts, f v)) (map (config_for e h ?ro) pre)"
      by (simp only: vpre)
    finally show ?thesis using w by simp
  qed
  show ?thesis using m r b i w' vpre vc assms(5) by auto
qed

theorem fatal_outcome_halts_invocations_witness:
  "\<not> test_list (default_values\<lparr>test := Some ''boom_b''\<rparr>)
   \<and> map_of (AVA_TESTS lab3) ''boom_b'' = Some boom_b
   \<and> valid_ref [] (infile_list (default_values\<lparr>test := Some ''boom_b''\<rparr>))
   \<and> get_all_serials lab3 (android_serial (default_values\<lparr>test := Some ''boom_b''\<rparr>))
       = [''A''] @ ''B'' # [''C'']
   \<and> nonfatal (boom_b (config_for lab3 []
        (run_options (default_values\<lparr>test := Some ''boom_b''\<rparr>)) ''A''))
   \<and> can_open lab3 (outfile_path (default_values\<lparr>test := Some ''boom_b''\<rparr>))
   \<and> fatal (boom_b (config_for lab3 []
        (run_options (default_values\<lparr>test := Some ''boom_b''\<rparr>)) ''B''))
   \<and> exit_status (fst (main lab3 [] (default_values\<lparr>test := Some ''boom_b''\<rparr>))) \<noteq> 0
   \<and> builds (snd (main lab3 [] (default_values\<lparr>test := Some ''boom_b''\<rparr>)))
       = [''A'', ''B'', ''C'']
   \<and> map cfg_android_serial
        (invocations (snd (main lab3 [] (default_values\<lparr>test := Some ''boom_b''\<rparr>))))
       = [Some ''A'', Some ''B'']
   \<and> writes (snd (main lab3 [] (default_values\<lparr>test := Some ''boom_b''\<rparr>)))
       = [(''/dev/fd/1'', VDict [(''retcode'', VInt 3)])]"
  using fatal_outcome_halts_invocations
    [of "default_values\<lparr>test := Some ''boom_b''\<rparr>" "''boom_b''" lab3 boom_b "[]"
        "[''A'']" "''B''" "[''C'']"]
  by (simp add: default_values_def lab3_def lab_def run_options_def outfile_path_def
      config_for_def boom_b_def nonfatal_def fatal_def valid_ref_def)

lemma report_fatal_plain:
  assumes "dict_get d ''results'' VNone = VNone"
  shows "report_fatal (VDict d) =
    (None, [Backtrace (dict_get d ''backtrace'' (VStr ''No backtrace'')), Value (VDict d)])"
  using assms by (simp add: report_fatal_def)

lemma report_fatal_nested:
  assumes "map_of d ''results'' = Some (VList rs)"
  shows "report_fatal (VDict d) =
    (fst (print_failed rs),
     Backtrace (dict_get d ''backtrace'' (VStr ''No backtrace'')) # snd (print_failed rs))"
  using assms by (simp add: report_fatal_def dict_get_def split: prod.splits)

text \<open>
  C3. Whenever the test returns a dictionary whose return code equals \<open>-1\<close>, wherever in
  the device list this happens, the loop prints the value stored under \<^verbatim>\<open>backtrace\<close>, or
  the placeholder \<^verbatim>\<open>No backtrace\<close> when that key is absent. When the dictionary has no
  nested results (the key \<^verbatim>\<open>results\<close> is absent or \<^verbatim>\<open>None\<close>) it then prints the whole
  outcome; when \<^verbatim>\<open>results\<close> is a list of sub-results that each carry a return code it
  prints exactly the sub-results whose return code is not 0, in order, and not the whole
  outcome. In both cases nothing else happens afterwards: the run ends with
  \<^verbatim>\<open>sys.exit(-1)\<close>, a nonzero exit status, and no later device is processed.
\<close>

theorem fatal_outcome_report:
  assumes "f (config_view h c) = VDict d" and "fatal (VDict d)"
  shows "(dict_get d ''results'' VNone = VNone \<longrightarrow>
            run_tests e h name f out (c # rest) tr =
              (SystemExit (- 1),
               tr @ [Print (RunTest name), Invoke name (config_view h c),
                     Print (Backtrace (dict_get d ''backtrace'' (VStr ''No backtrace''))),
                     Print (Value (VDict d))]))
       \<and> (\<forall>rs. map_of d ''results'' = Some (VList rs) \<and> list_all has_retcode rs \<longrightarrow>
            run_tests e h name f out (c # rest) tr =
              (SystemExit (- 1),
               tr @ [Print (RunTest name), Invoke name (config_view h c),
                     Print (Backtrace (dict_get d ''backtrace'' (VStr ''No backtrace'')))]
                  @ map (\<lambda>r. Print (Value r)) (filter retcode_nonzero rs)))
       \<and> exit_status (SystemExit (- 1)) \<noteq> 0"
proof -
  have fat: "fatal (f (config_view h c))" using assms by simp
  note step = run_tests_fatal_step [where f = f and h = h and c = c, OF fat, unfolded assms(1)]
  show ?thesis
    by (auto simp: step report_fatal_plain report_fatal_nested print_failed_all
        simp del: run_tests.simps)
qed

theorem fatal_outcome_report_witness:
  "boom (config_view [] config_a) = VDict [(''retcode'', VInt (- 1)), (''backtrace'', VStr ''boom'')]
   \<and> fatal (VDict [(''retcode'', VInt (- 1)), (''backtrace'', VStr ''boom'')])
   \<and> dict_get [(''retcode'', VInt (- 1)), (''backtrace'', VStr ''boom'')] ''results'' VNone = VNone
   \<and> run_tests lab [] ''boom'' boom ''out.json'' [config_a, config_b] [] =
        (SystemExit (- 1),
         [Print (RunTest ''boom''), Invoke ''boom'' (config_view [] config_a),
          Print (Backtrace (VStr ''boom'')),
          Print (Value (VDict [(''retcode'', VInt (- 1)), (''backtrace'', VStr ''boom'')]))])
   \<and> fatal (nested (config_view [] config_a))
   \<and> list_all has_retcode
        [VDict [(''retcode'', VInt 0)], VDict [(''retcode'', VInt 2), (''name'', VStr ''enc'')]]
   \<and> run_tests lab [] ''nested'' nested ''out.json'' [config_a, config_b] [] =
        (SystemExit (- 1),
         [Print (RunTest ''nested''), Invoke ''nested'' (config_view [] config_a),
          Print (Backtrace (VStr ''No backtrace'')),
          Print (Value (VDict [(''retcode'', VInt 2), (''name'', VStr ''enc'')]))])"
  using fatal_outcome_report [of boom "[]" config_a
      "[(''retcode'', VInt (- 1)), (''backtrace'', VStr ''boom'')]" lab "''boom''" "''out.json''"
      "[config_b]" "[]"]
    fatal_outcome_report [of nested "[]" config_a
      "[(''retcode'', VInt (- 1)),
        (''results'', VList [VDict [(''retcode'', VInt 0)],
                             VDict [(''retcode'', VInt 2), (''name'', VStr ''enc'')]])]"
      lab "''nested''" "''out.json''" "[config_b]" "[]"]
  by (simp add: boom_def nested_def config_a_def config_view_def deref_def fatal_def
      dict_get_def has_retcode_def retcode_nonzero_def)

section \<open>Outcomes that are not fatal\<close>

lemma run_tests_all_nonfatal:
  assumes "\<forall>c \<in> set cs. nonfatal (f (config_view h c))" and "cs \<noteq> [] \<longrightarrow> can_open e out"
  shows "run_tests e h name f out cs tr =
     (Returned, tr @ concat (map (\<lambda>c. recorded name f out (config_view h c)) cs))"
  using run_tests_nonfatal_prefix [where rest = "[]", OF assms] by simp

lemma run_tests_starts:
  "\<exists>later. snd (run_tests e h name f out (c # rest) tr)
     = tr @ [Print (RunTest name), Invoke name (config_view h c)] @ later"
proof -
  obtain loop where "snd (run_tests e h name f out (c # rest) tr) = tr @ loop"
    using run_tests_trace by blast
  let ?v = "config_view h c"
  let ?tr1 = "tr @ [Print (RunTest name), Invoke name ?v]"
  show ?thesis
  proof (cases "nonfatal (f ?v) \<and> can_open e out")
    case True
    obtain loop where "snd (run_tests e h name f out rest (tr @ recorded name f out ?v))
        = (tr @ recorded name f out ?v) @ loop"
      using run_tests_trace by blast
    then show ?thesis
      using True by (simp add: run_tests_nonfatal_step recorded_def del: run_tests.simps)
  next
    case False
    then show ?thesis
      by (auto simp: nonfatal_def Let_def split: sum.splits prod.splits option.splits)
  qed
qed

text \<open>
  C4, as stated: for every device whose outcome has a return code other than \<open>-1\<close>, the
  outcome is recorded in the aggregated result and iteration continues to the next device.
  It does not hold. In the lab, with the test called first for device B, where it fails
  softly (return code 1), and then for device A: the run collects nothing; all it does
  with the two outcomes is to write each as a document of its own, and no document holding
  both is written. And when the output file cannot be opened, the soft failure of B is
  written nowhere, the test is never called for A, and the run ends with an uncaught
  \<^verbatim>\<open>OSError\<close> and exit status 1.
\<close>

theorem soft_failure_not_aggregated:
  "nonfatal (ping (config_view [] config_b))
   \<and> run_tests lab [] ''ping'' ping ''out.json'' [config_b, config_a] [] =
        (Returned,
         [Print (RunTest ''ping''), Invoke ''ping'' (config_view [] config_b),
          OpenW ''out.json'', Write ''out.json'' (VDict [(''retcode'', VInt 1)]),
          Print (RunTest ''ping''), Invoke ''ping'' (config_view [] config_a),
          OpenW ''out.json'', Write ''out.json'' (VDict [(''retcode'', VInt 0)])])
   \<and> (''out.json'', VList [VDict [(''retcode'', VInt 1)], VDict [(''retcode'', VInt 0)]])
       \<notin> set (writes (snd (run_tests lab [] ''ping'' ping ''out.json'' [config_b, config_a] [])))
   \<and> \<not> can_open lab ''/nonexistent/out.json''
   \<and> run_tests lab [] ''ping'' ping ''/nonexistent/out.json'' [config_b, config_a] [] =
        (Uncaught (OSError ''/nonexistent/out.json''),
         [Print (RunTest ''ping''), Invoke ''ping'' (config_view [] config_b),
          OpenFailed ''/nonexistent/out.json''])
   \<and> writes (snd (run_tests lab [] ''ping'' ping ''/nonexistent/out.json''
                     [config_b, config_a] [])) = []
   \<and> exit_status (fst (run_tests lab [] ''ping'' ping ''/nonexistent/out.json''
                          [config_b, config_a] [])) = 1"
  by (simp add: ping_def config_a_def config_b_def config_view_def deref_def nonfatal_def
      lab_def)

text \<open>
  C4, amended. Whenever the test returns, for a device, an outcome with a return code
  other than \<open>-1\<close> (zero or not) and the output file can be opened, the outcome is
  serialized to the output file as a document of its own, right after the invocation, and
  the loop goes on with the remaining devices, the next event being the invocation of the
  test for the next device. Such an outcome does not make the exit status nonzero: when
  the remaining outcomes are not fatal either, \<^verbatim>\<open>main\<close> returns and the exit status is 0.
\<close>

theorem nonfatal_outcome_written:
  assumes "nonfatal (f (config_view h c))" and "can_open e out"
  shows "run_tests e h name f out (c # rest) tr
           = run_tests e h name f out rest (tr @ recorded name f out (config_view h c))
       \<and> writes (recorded name f out (config_view h c)) = [(out, f (config_view h c))]
       \<and> (\<forall>c' rest'. rest = c' # rest' \<longrightarrow>
            (\<exists>later. snd (run_tests e h name f out (c # rest) tr)
               = tr @ recorded name f out (config_view h c)
                    @ [Print (RunTest name), Invoke name (config_view h c')] @ later))
       \<and> ((\<forall>c' \<in> set rest. nonfatal (f (config_view h c'))) \<longrightarrow>
            fst (run_tests e h name f out (c # rest) tr) = Returned
          \<and> exit_status (fst (run_tests e h name f out (c # rest) tr)) = 0)"
proof -
  let ?v = "config_view h c"
  let ?tr' = "tr @ recorded name f out ?v"
  have step: "run_tests e h name f out (c # rest) tr = run_tests e h name f out rest ?tr'"
    using assms by (rule run_tests_nonfatal_step)
  have wr: "writes (recorded name f out ?v) = [(out, f ?v)]" by simp
  have next_device: "\<forall>c' rest'. rest = c' # rest' \<longrightarrow>
            (\<exists>later. snd (run_tests e h name f out (c # rest) tr)
               = tr @ recorded name f out ?v
                    @ [Print (RunTest name), Invoke name (config_view h c')] @ later)"
  proof (intro allI impI)
    fix c' rest' assume r: "rest = c' # rest'"
    obtain later where
      "snd (run_tests e h name f out (c' # rest') ?tr')
         = ?tr' @ [Print (RunTest name), Invoke name (config_view h c')] @ later"
      using run_tests_starts by blast
    moreover have "snd (run_tests e h name f out (c # rest) tr)
         = snd (run_tests e h name f out (c' # rest') ?tr')"
      by (subst step) (simp only: r)
    ultimately have "snd (run_tests e h name f out (c # rest) tr)
         = tr @ recorded name f out ?v
              @ [Print (RunTest name), Invoke name (config_view h c')] @ later"
      by (simp only: append_assoc)
    then show "\<exists>later. snd (run_tests e h name f out (c # rest) tr)
               = tr @ recorded name f out ?v
                    @ [Print (RunTest name), Invoke name (config_view h c')] @ later" ..
  qed
  have all_ok: "(\<forall>c' \<in> set rest. nonfatal (f (config_view h c'))) \<longrightarrow>
            fst (run_tests e h name f out (c # rest) tr) = Returned
          \<and> exit_status (fst (run_tests e h name f out (c # rest) tr)) = 0"
  proof
    assume ok: "\<forall>c' \<in> set rest. nonfatal (f (config_view h c'))"
    have "run_tests e h name f out rest ?tr'
        = (Returned, ?tr' @ concat (map (\<lambda>c. recorded name f out (config_view h c)) rest))"
      using ok assms(2) by (intro run_tests_all_nonfatal) simp_all
    then have "fst (run_tests e h name f out (c # rest) tr) = Returned"
      unfolding step by (simp only: fst_conv)
    then show "fst (run_tests e h name f out (c # rest) tr) = Returned
          \<and> exit_status (fst (run_tests e h name f out (c # rest) tr)) = 0"
      by (simp only: exit_status.simps)
  qed
  from step wr next_device all_ok show ?thesis by (intro conjI)
qed

theorem nonfatal_outcome_written_witness:
  "nonfatal (ping (config_view [] config_b))
   \<and> can_open lab ''out.json''
   \<and> ping (config_view [] config_b) = VDict [(''retcode'', VInt 1)]
   \<and> run_tests lab [] ''ping'' ping ''out.json'' [config_b, config_a] [] =
        (Returned,
         [Print (RunTest ''ping''), Invoke ''ping'' (config_view [] config_b),
          OpenW ''out.json'', Write ''out.json'' (VDict [(''retcode'', VInt 1)]),
          Print (RunTest ''ping''), Invoke ''ping'' (config_view [] config_a),
          OpenW ''out.json'', Write ''out.json'' (VDict [(''retcode'', VInt 0)])])
   \<and> exit_status (fst (run_tests lab [] ''ping'' ping ''out.json'' [config_b, config_a] [])) = 0"
  using nonfatal_outcome_written [of ping "[]" config_b lab "''out.json''" "''ping''"
      "[config_a]" "[]"]
  by (simp add: ping_def config_a_def config_b_def config_view_def deref_def nonfatal_def
      lab_def)

section \<open>No devices\<close>

text \<open>
  C6. For every run past the listing mode in which no device is discovered, and whose
  selected test, if there is one, is registered: \<^verbatim>\<open>main\<close> prints \<^verbatim>\<open>No connected devices\<close>
  right after the enumeration, builds no configuration, invokes no test, writes no result,
  and returns, so the exit status is 0.
\<close>

theorem no_devices_run:
  assumes "\<not> test_list opts" and "get_all_serials e (android_serial opts) = []"
    and "case test opts of None \<Rightarrow> True | Some name \<Rightarrow> map_of (AVA_TESTS e) name \<noteq> None"
  shows "main e h opts =
           (Returned,
            (if debug opts > 0 then [Print (DebugOptions (run_options opts))] else [])
            @ [GetAllSerials (android_serial opts), Print NoDevices])
       \<and> exit_status (fst (main e h opts)) = 0
       \<and> builds (snd (main e h opts)) = []
       \<and> invocations (snd (main e h opts)) = []
       \<and> writes (snd (main e h opts)) = []"
proof -
  have evs: "setup_events e opts =
      (if debug opts > 0 then [Print (DebugOptions (run_options opts))] else [])
      @ [GetAllSerials (android_serial opts), Print NoDevices]"
    using assms(2) by (simp add: setup_events_def)
  have "main e h opts = (Returned, setup_events e opts)"
  proof (cases "test opts")
    case None
    with assms(1) show ?thesis by (rule main_no_test)
  next
    case (Some name)
    with assms(3) obtain f where f: "map_of (AVA_TESTS e) name = Some f" by auto
    have "build_configs e h (run_options opts) (get_all_serials e (android_serial opts)) = (h, [])"
      using assms(2) by simp
    from main_registered [OF assms(1) Some f this] show ?thesis by simp
  qed
  then show ?thesis using evs by simp
qed

theorem no_devices_run_witness:
  "\<not> test_list (default_values\<lparr>test := Some ''ping'', debug := 1\<rparr>)
   \<and> get_all_serials empty_lab (android_serial (default_values\<lparr>test := Some ''ping'', debug := 1\<rparr>)) = []
   \<and> map_of (AVA_TESTS empty_lab) ''ping'' = Some ping
   \<and> main empty_lab [] (default_values\<lparr>test := Some ''ping'', debug := 1\<rparr>) =
       (Returned,
        [Print (DebugOptions (default_values\<lparr>test := Some ''ping'', debug := 1,
                                           outfile := Some ''/dev/fd/1''\<rparr>)),
         GetAllSerials None, Print NoDevices])
   \<and> exit_status (fst (main empty_lab [] (default_values\<lparr>test := Some ''ping'', debug := 1\<rparr>))) = 0"
  using no_devices_run [of "default_values\<lparr>test := Some ''ping'', debug := 1\<rparr>" empty_lab "[]"]
  by (simp add: default_values_def empty_lab_def lab_def run_options_def outfile_path_def)

section \<open>One outcome per device\<close>

lemma views_transfer:
  assumes "map (config_view h') cs = map g ds"
  shows "map (\<lambda>c. k (config_view h' c)) cs = map (\<lambda>s. k (g s)) ds"
proof -
  have "map (\<lambda>c. k (config_view h' c)) cs = map k (map (config_view h') cs)" by simp
  also have "\<dots> = map k (map g ds)" by (simp only: assms)
  finally show ?thesis by simp
qed

text \<open>
  C7, as stated: on normal completion the aggregated result, containing all the outcomes,
  is serialized to the output destination. It does not hold: with devices A and B and the
  output file \<^verbatim>\<open>out.json\<close>, the run returns having written two documents, one outcome
  each; the list of both outcomes is not written.
\<close>

theorem no_aggregated_document:
  "fst (main lab [] (default_values\<lparr>test := Some ''ping'', outfile := Some ''out.json''\<rparr>))
     = Returned
   \<and> writes (snd (main lab [] (default_values\<lparr>test := Some ''ping'', outfile := Some ''out.json''\<rparr>)))
       = [(''out.json'', VDict [(''retcode'', VInt 0)]), (''out.json'', VDict [(''retcode'', VInt 1)])]
   \<and> (''out.json'', VList [VDict [(''retcode'', VInt 0)], VDict [(''retcode'', VInt 1)]])
       \<notin> set (writes (snd (main lab []
             (default_values\<lparr>test := Some ''ping'', outfile := Some ''out.json''\<rparr>))))"
  by (simp add: main_def default_values_def lab_def run_options_def outfile_path_def Let_def
      replace_serial_def deepcopy_def AvaConfig_def TEST_INPUT_MP4_def
      config_view_def deref_def ping_def)

text \<open>
  C7, amended. For every list of discovered devices, a run with a registered test in
  which every outcome carries a return code other than \<open>-1\<close> and the output file can be
  opened invokes the test exactly once per device, in enumeration order, each time with
  the configuration built from that device's serial, and returns with exit status 0.
  No aggregated result is built: each outcome is serialized to the output file as a
  document of its own, so there are as many documents written as devices, in enumeration
  order, and none when there is no device.
\<close>

theorem all_outcomes_written_separately:
  assumes "\<not> test_list opts" and "test opts = Some name"
    and "map_of (AVA_TESTS e) name = Some f"
    and "valid_ref h (infile_list opts)"
    and "\<forall>s \<in> set (get_all_serials e (android_serial opts)).
           nonfatal (f (config_for e h (run_options opts) s))"
    and "get_all_serials e (android_serial opts) \<noteq> [] \<longrightarrow> can_open e (outfile_path opts)"
  shows "fst (main e h opts) = Returned
       \<and> exit_status (fst (main e h opts)) = 0
       \<and> invocations (snd (main e h opts))
           = map (config_for e h (run_options opts)) (get_all_serials e (android_serial opts))
       \<and> writes (snd (main e h opts))
           = map (\<lambda>s. (outfile_path opts, f (config_for e h (run_options opts) s)))
               (get_all_serials e (android_serial opts))
       \<and> length (writes (snd (main e h opts)))
           = length (get_all_serials e (android_serial opts))"
proof -
  let ?ro = "run_options opts"
  let ?ds = "get_all_serials e (android_serial opts)"
  let ?out = "outfile_path opts"
  obtain h' cs where bc: "build_configs e h ?ro ?ds = (h', cs)" by force
  have v: "valid_ref h (infile_list ?ro)" using assms(4) by (simp add: run_options_def)
  from build_configs_views [OF v bc]
  have views: "map (config_view h') cs = map (config_for e h ?ro) ?ds" by simp
  then have len: "length cs = length ?ds" by (rule map_eq_imp_length_eq)
  have ok: "\<forall>c \<in> set cs. nonfatal (f (config_view h' c))"
  proof
    fix c assume "c \<in> set cs"
    then have "config_view h' c \<in> set (map (config_for e h ?ro) ?ds)"
      using views by (metis image_eqI set_map)
    then show "nonfatal (f (config_view h' c))" using assms(5) by auto
  qed
  have opn: "cs \<noteq> [] \<longrightarrow> can_open e ?out" using assms(6) len by auto
  let ?loop = "concat (map (\<lambda>c. recorded name f ?out (config_view h' c)) cs)"
  have "run_tests e h' name f ?out cs (setup_events e opts)
      = (Returned, setup_events e opts @ ?loop)"
    using ok opn by (rule run_tests_all_nonfatal)
  with main_registered [OF assms(1-3) bc]
  have m: "main e h opts = (Returned, setup_events e opts @ ?loop)" by simp
  have w: "writes ?loop = map (\<lambda>s. (?out, f (config_for e h ?ro s))) ?ds"
    using views_transfer [OF views, of "\<lambda>v. (?out, f v)"] by simp
  show ?thesis using m w views by simp
qed

theorem all_outcomes_written_separately_witness:
  "\<not> test_list (default_values\<lparr>test := Some ''ping'', outfile := Some ''out.json''\<rparr>)
   \<and> map_of (AVA_TESTS lab) ''ping'' = Some ping
   \<and> valid_ref [] (infile_list (default_values\<lparr>test := Some ''ping'', outfile := Some ''out.json''\<rparr>))
   \<and> nonfatal (ping (config_for lab []
        (run_options (default_values\<lparr>test := Some ''ping'', outfile := Some ''out.json''\<rparr>)) ''A''))
   \<and> nonfatal (ping (config_for lab []
        (run_options (default_values\<lparr>test := Some ''ping'', outfile := Some ''out.json''\<rparr>)) ''B''))
   \<and> can_open lab ''out.json''
   \<and> fst (main lab [] (default_values\<lparr>test := Some ''ping'', outfile := Some ''out.json''\<rparr>))
       = Returned
   \<and> map cfg_android_serial (invocations (snd (main lab []
        (default_values\<lparr>test := Some ''ping'', outfile := Some ''out.json''\<rparr>))))
       = [Some ''A'', Some ''B'']
   \<and> writes (snd (main lab [] (default_values\<lparr>test := Some ''ping'', outfile := Some ''out.json''\<rparr>)))
       = [(''out.json'', VDict [(''retcode'', VInt 0)]), (''out.json'', VDict [(''retcode'', VInt 1)])]"
  using all_outcomes_written_separately
    [of "default_values\<lparr>test := Some ''ping'', outfile := Some ''out.json''\<rparr>" "''ping''" lab
        ping "[]"]
  by (simp add: default_values_def lab_def run_options_def outfile_path_def config_for_def
      ping_def nonfatal_def valid_ref_def)

section \<open>The dry-run flag\<close>

text \<open>
  C8. For every run past the listing mode, whatever the dry-run flag is (so in particular
  when it is set), the devices are enumerated, one configuration is built per discovered
  device, in order, and every configuration a test is invoked with carries the dry-run
  flag of the options unchanged.
\<close>

theorem dry_run_propagated:
  assumes "\<not> test_list opts"
  shows "GetAllSerials (android_serial opts) \<in> set (snd (main e h opts))
       \<and> builds (snd (main e h opts)) = get_all_serials e (android_serial opts)
       \<and> (\<forall>c \<in> set (invocations (snd (main e h opts))). cfg_dry_run c = dry_run opts)"
proof -
  have enum: "GetAllSerials (android_serial opts) \<in> set (setup_events e opts)"
    by (simp add: setup_events_def)
  show ?thesis
  proof (cases "test opts")
    case None
    from main_no_test [OF assms None] enum show ?thesis by simp
  next
    case (Some name)
    show ?thesis
    proof (cases "map_of (AVA_TESTS e) name")
      case None
      from main_unknown [OF assms Some None] enum show ?thesis by simp
    next
      case (Some f)
      obtain h' cs where bc: "build_configs e h (run_options opts)
          (get_all_serials e (android_serial opts)) = (h', cs)" by force
      from build_configs_dry_run [OF bc]
      have dry: "\<forall>c \<in> set cs. cfg_dry_run c = dry_run opts" by (simp add: run_options_def)
      obtain loop where
        tr: "snd (run_tests e h' name f (outfile_path opts) cs (setup_events e opts))
               = setup_events e opts @ loop"
        and b: "builds loop = []"
        and i: "set (invocations loop) \<subseteq> config_view h' ` set cs"
        using run_tests_trace by blast
      have "\<forall>c \<in> set (invocations loop). cfg_dry_run c = dry_run opts"
        using i dry by (auto simp: config_view_def)
      with main_registered [OF assms \<open>test opts = Some name\<close> Some bc] tr b enum
      show ?thesis by simp
    qed
  qed
qed

theorem dry_run_propagated_witness:
  "\<not> test_list (default_values\<lparr>test := Some ''ping'', dry_run := True\<rparr>)
   \<and> GetAllSerials None
       \<in> set (snd (main lab [] (default_values\<lparr>test := Some ''ping'', dry_run := True\<rparr>)))
   \<and> builds (snd (main lab [] (default_values\<lparr>test := Some ''ping'', dry_run := True\<rparr>)))
       = [''A'', ''B'']
   \<and> map cfg_dry_run
        (invocations (snd (main lab [] (default_values\<lparr>test := Some ''ping'', dry_run := True\<rparr>))))
       = [True, True]"
  using dry_run_propagated [of "default_values\<lparr>test := Some ''ping'', dry_run := True\<rparr>" lab "[]"]
  by (simp add: main_def default_values_def lab_def run_options_def outfile_path_def Let_def
      replace_serial_def deepcopy_def AvaConfig_def TEST_INPUT_MP4_def
      config_view_def deref_def ping_def)

section \<open>An output file that cannot be opened\<close>

text \<open>
  C9, as stated: in every run, an output destination that cannot be opened for writing
  makes the result writer fail, and the run does not complete successfully. It does not
  hold: in the lab without devices and with an output path that cannot be opened, the
  selected test being registered, nothing is to be written, the path is never opened, and
  \<^verbatim>\<open>main\<close> returns with exit status 0.
\<close>

theorem unwritable_destination_unnoticed:
  "\<not> can_open empty_lab ''/nonexistent/out.json''
   \<and> map_of (AVA_TESTS empty_lab) ''ping'' = Some ping
   \<and> main empty_lab []
        (default_values\<lparr>test := Some ''ping'', outfile := Some ''/nonexistent/out.json''\<rparr>)
       = (Returned, [GetAllSerials None, Print NoDevices])
   \<and> exit_status (fst (main empty_lab []
        (default_values\<lparr>test := Some ''ping'', outfile := Some ''/nonexistent/out.json''\<rparr>))) = 0"
  by (simp add: main_def default_values_def empty_lab_def lab_def run_options_def
      outfile_path_def Let_def)

text \<open>
  C9, amended. For every run that reaches the writing of a result (a registered test, at
  least one device, a first outcome that carries a return code other than \<open>-1\<close>): if the
  output file cannot be opened for writing, the \<^verbatim>\<open>OSError\<close> (\<^verbatim>\<open>IOError\<close> is its alias)
  raised by \<^verbatim>\<open>open\<close> leaves \<^verbatim>\<open>main\<close> uncaught right after the first invocation. Nothing is
  written, no further device is processed, and the exit status is not 0.
\<close>

theorem unwritable_destination_raises:
  assumes "\<not> test_list opts" and "test opts = Some name"
    and "map_of (AVA_TESTS e) name = Some f"
    and "valid_ref h (infile_list opts)"
    and "get_all_serials e (android_serial opts) = s # rest"
    and "nonfatal (f (config_for e h (run_options opts) s))"
    and "\<not> can_open e (outfile_path opts)"
  shows "main e h opts =
           (Uncaught (OSError (outfile_path opts)),
            setup_events e opts
            @ [Print (RunTest name), Invoke name (config_for e h (run_options opts) s),
               OpenFailed (outfile_path opts)])
       \<and> exit_status (fst (main e h opts)) \<noteq> 0
       \<and> writes (snd (main e h opts)) = []"
proof -
  let ?ro = "run_options opts"
  obtain h' cs where bc: "build_configs e h ?ro (s # rest) = (h', cs)" by force
  have v: "valid_ref h (infile_list ?ro)" using assms(4) by (simp add: run_options_def)
  from build_configs_views [OF v bc]
  have "map (config_view h') cs = map (config_for e h ?ro) (s # rest)" by simp
  then obtain c cs' where cs: "cs = c # cs'" and vc: "config_view h' c = config_for e h ?ro s"
    by (auto simp: map_eq_Cons_conv)
  have "run_tests e h' name f (outfile_path opts) (c # cs') (setup_events e opts) =
      (Uncaught (OSError (outfile_path opts)),
       setup_events e opts @ [Print (RunTest name), Invoke name (config_view h' c),
         OpenFailed (outfile_path opts)])"
    using assms(6,7) vc by (auto simp: nonfatal_def Let_def split: sum.splits)
  with main_registered [OF assms(1-3), of h h' cs] bc assms(5) cs vc
  show ?thesis by simp
qed

theorem unwritable_destination_raises_witness:
  "\<not> test_list (default_values\<lparr>test := Some ''ping'', outfile := Some ''/nonexistent/out.json''\<rparr>)
   \<and> map_of (AVA_TESTS lab) ''ping'' = Some ping
   \<and> valid_ref [] (infile_list (default_values\<lparr>test := Some ''ping'',
                                      outfile := Some ''/nonexistent/out.json''\<rparr>))
   \<and> get_all_serials lab None = ''A'' # [''B'']
   \<and> nonfatal (ping (config_for lab []
        (run_options (default_values\<lparr>test := Some ''ping'',
                                      outfile := Some ''/nonexistent/out.json''\<rparr>)) ''A''))
   \<and> \<not> can_open lab ''/nonexistent/out.json''
   \<and> fst (main lab [] (default_values\<lparr>test := Some ''ping'',
                                        outfile := Some ''/nonexistent/out.json''\<rparr>))
       = Uncaught (OSError ''/nonexistent/out.json'')
   \<and> exit_status (fst (main lab [] (default_values\<lparr>test := Some ''ping'',
                                        outfile := Some ''/nonexistent/out.json''\<rparr>))) = 1
   \<and> map cfg_android_serial (invocations (snd (main lab []
        (default_values\<lparr>test := Some ''ping'', outfile := Some ''/nonexistent/out.json''\<rparr>))))
       = [Some ''A'']"
  using unwritable_destination_raises
    [of "default_values\<lparr>test := Some ''ping'', outfile := Some ''/nonexistent/out.json''\<rparr>"
        "''ping''" lab ping "[]" "''A''" "[''B'']"]
  by (simp add: default_values_def lab_def run_options_def outfile_path_def config_for_def
      ping_def nonfatal_def valid_ref_def)

section \<open>Outcomes without a return code\<close>

text \<open>
  C10. After every invocation the loop indexes the outcome at \<^verbatim>\<open>"retcode"\<close> before doing
  anything else with it: when the test returns a dictionary without that key, the run ends
  there with an uncaught \<^verbatim>\<open>KeyError\<close>, nothing having been printed about the outcome and
  nothing written. Likewise on a fatal outcome with a list of nested results: the nested
  results are indexed at \<^verbatim>\<open>"retcode"\<close> one after the other, and the first one that is a
  dictionary without that key ends the run with an uncaught \<^verbatim>\<open>KeyError\<close>, after the
  backtrace line and the failed nested results before it were printed, instead of the
  exit with status \<open>-1\<close>.
\<close>

theorem missing_retcode_aborts:
  assumes "f (config_view h c) = VDict d"
  shows "(map_of d ''retcode'' = None \<longrightarrow>
            run_tests e h name f out (c # rest) tr =
              (Uncaught (KeyError ''retcode''),
               tr @ [Print (RunTest name), Invoke name (config_view h c)]))
       \<and> (\<forall>ok d' later.
             fatal (VDict d) \<and> map_of d ''results'' = Some (VList (ok @ VDict d' # later))
             \<and> list_all has_retcode ok \<and> map_of d' ''retcode'' = None \<longrightarrow>
            run_tests e h name f out (c # rest) tr =
              (Uncaught (KeyError ''retcode''),
               tr @ [Print (RunTest name), Invoke name (config_view h c),
                     Print (Backtrace (dict_get d ''backtrace'' (VStr ''No backtrace'')))]
                  @ map (\<lambda>r. Print (Value r)) (filter retcode_nonzero ok)))"
proof (intro conjI allI impI)
  assume "map_of d ''retcode'' = None"
  then show "run_tests e h name f out (c # rest) tr =
      (Uncaught (KeyError ''retcode''),
       tr @ [Print (RunTest name), Invoke name (config_view h c)])"
    using assms by (simp add: Let_def)
next
  fix ok d' later
  assume a: "fatal (VDict d) \<and> map_of d ''results'' = Some (VList (ok @ VDict d' # later))
             \<and> list_all has_retcode ok \<and> map_of d' ''retcode'' = None"
  then have fat: "fatal (f (config_view h c))" using assms by simp
  note step = run_tests_fatal_step [where f = f and h = h and c = c, OF fat, unfolded assms]
  have "report_fatal (VDict d) =
      (Some (KeyError ''retcode''),
       Backtrace (dict_get d ''backtrace'' (VStr ''No backtrace''))
       # map Value (filter retcode_nonzero ok))"
    using a by (simp add: report_fatal_nested print_failed_missing)
  then show "run_tests e h name f out (c # rest) tr =
      (Uncaught (KeyError ''retcode''),
       tr @ [Print (RunTest name), Invoke name (config_view h c),
             Print (Backtrace (dict_get d ''backtrace'' (VStr ''No backtrace'')))]
          @ map (\<lambda>r. Print (Value r)) (filter retcode_nonzero ok))"
    by (simp add: step del: run_tests.simps)
qed

theorem missing_retcode_aborts_witness:
  "bare (config_view [] config_a) = VDict [(''status'', VStr ''ok'')]
   \<and> map_of [(''status'', VStr ''ok'')] ''retcode'' = None
   \<and> run_tests lab [] ''bare'' bare ''out.json'' [config_a, config_b] [] =
        (Uncaught (KeyError ''retcode''),
         [Print (RunTest ''bare''), Invoke ''bare'' (config_view [] config_a)])
   \<and> fatal (half_nested (config_view [] config_a))
   \<and> list_all has_retcode [VDict [(''retcode'', VInt 5)]]
   \<and> map_of [(''name'', VStr ''enc'')] ''retcode'' = None
   \<and> run_tests lab [] ''half_nested'' half_nested ''out.json'' [config_a, config_b] [] =
        (Uncaught (KeyError ''retcode''),
         [Print (RunTest ''half_nested''), Invoke ''half_nested'' (config_view [] config_a),
          Print (Backtrace (VStr ''No backtrace'')),
          Print (Value (VDict [(''retcode'', VInt 5)]))])"
  using missing_retcode_aborts [of bare "[]" config_a "[(''status'', VStr ''ok'')]"
      lab "''bare''" "''out.json''" "[config_b]" "[]"]
    missing_retcode_aborts [of half_nested "[]" config_a
      "[(''retcode'', VInt (- 1)),
        (''results'', VList [VDict [(''retcode'', VInt 5)], VDict [(''name'', VStr ''enc'')],
                             VDict [(''retcode'', VInt 7)]])]"
      lab "''half_nested''" "''out.json''" "[config_b]" "[]"]
  by (simp add: bare_def half_nested_def config_a_def config_view_def deref_def fatal_def
      dict_get_def has_retcode_def retcode_nonzero_def report_fatal_def)

end
